theory Spec2Isabelle
  imports Main "HOL-Library.Sublist"
begin

section \<open>Strings and probe responses\<close>

text \<open>
  The values the stream-inspection tool reports are ASCII identifiers, so a Python
  \<^verbatim>\<open>str\<close> is a \<^typ>\<open>string\<close> here and \<^verbatim>\<open>str.lower()\<close> maps the letters
  \<^verbatim>\<open>A\<close>..\<^verbatim>\<open>Z\<close> to \<^verbatim>\<open>a\<close>..\<^verbatim>\<open>z\<close> and leaves every other character alone.
\<close>

definition lower_char :: "char \<Rightarrow> char" where
  "lower_char c =
     (let n = (of_char c :: nat) in if 65 \<le> n \<and> n \<le> 90 then char_of (n + 32) else c)"

definition lower :: "string \<Rightarrow> string" where
  "lower s = map lower_char s"

text \<open>Python's \<^verbatim>\<open>sub in s\<close> on strings: \<^verbatim>\<open>sub\<close> occurs in \<^verbatim>\<open>s\<close> as a contiguous run.\<close>

fun str_in :: "string \<Rightarrow> string \<Rightarrow> bool" where
  "str_in sub [] = (sub = [])"
| "str_in sub (c # cs) = (prefix sub (c # cs) \<or> str_in sub cs)"

text \<open>
  A value of the parsed JSON object of one stream: the tool writes strings; \<^verbatim>\<open>null\<close>
  is what \<^verbatim>\<open>json.loads\<close> turns into \<^verbatim>\<open>None\<close>.
\<close>

datatype jval = JNull | JStr string

type_synonym info = "string \<rightharpoonup> jval"

text \<open>\<^verbatim>\<open>d.get(key, default)\<close>.\<close>

definition dict_get :: "info \<Rightarrow> string \<Rightarrow> jval \<Rightarrow> jval" where
  "dict_get d key dflt = (case d key of None \<Rightarrow> dflt | Some v \<Rightarrow> v)"

text \<open>
  \<^verbatim>\<open>(d.get(key) or "")\<close>: an absent key gives \<^verbatim>\<open>None\<close>, and \<^verbatim>\<open>None\<close> and the empty
  string are both falsy, so each of them gives the empty string.
\<close>

definition get_or_empty :: "info \<Rightarrow> string \<Rightarrow> string" where
  "get_or_empty d key =
     (case d key of None \<Rightarrow> [] | Some JNull \<Rightarrow> [] | Some (JStr s) \<Rightarrow> s)"

text \<open>\<^verbatim>\<open>str(v)\<close>, as an f-string renders a value.\<close>

fun py_str :: "jval \<Rightarrow> string" where
  "py_str JNull = ''None''"
| "py_str (JStr s) = s"

text \<open>
  What running the inspection tool and \<^verbatim>\<open>json.loads\<close> on its output gives: the tool
  exits non-zero (\<^verbatim>\<open>check=True\<close> raises), its output is not the expected JSON, or it is
  an object whose \<^verbatim>\<open>"streams"\<close> entry, when present, is a list of stream objects.
\<close>

datatype probe_response = NonZeroExit | Unparseable | Response "info list option"

section \<open>main.py: classification and filter chain\<close>

text \<open>
  The four values \<^verbatim>\<open>build_ffmpeg_command\<close> reads from the stream object
  (\<^verbatim>\<open>transfer\<close>, \<^verbatim>\<open>color_space\<close>, \<^verbatim>\<open>primaries\<close>, \<^verbatim>\<open>pix_fmt\<close>). The transfer is
  whatever the response holds, so it is a \<^typ>\<open>jval\<close>.
\<close>

record StreamMetadata =
  transfer :: jval
  colorSpace :: string
  primaries :: string
  pixelFormat :: string

definition metadata_of :: "info \<Rightarrow> StreamMetadata" where
  "metadata_of info =
     \<lparr> transfer = dict_get info ''color_transfer'' (JStr ''unknown''),
       colorSpace = lower (get_or_empty info ''color_space''),
       primaries = lower (get_or_empty info ''color_primaries''),
       pixelFormat = lower (get_or_empty info ''pix_fmt'') \<rparr>"

definition hdr_pix_fmts :: "string set" where
  "hdr_pix_fmts =
     {''p010le'', ''p016le'',
      ''yuv420p10le'', ''yuv422p10le'', ''yuv444p10le'',
      ''yuv420p12le'', ''yuv422p12le'', ''yuv444p12le''}"

definition is_hdr :: "jval \<Rightarrow> string \<Rightarrow> string \<Rightarrow> string \<Rightarrow> bool" where
  "is_hdr transfer' color_space primaries' pix_fmt =
     (let hdr_like_colors = (str_in ''bt2020'' primaries' \<or> str_in ''bt2020'' color_space);
          hdr_like_bitdepth =
            (pix_fmt \<in> hdr_pix_fmts \<or> str_in ''10le'' pix_fmt \<or> str_in ''12le'' pix_fmt)
      in transfer' \<notin> {JStr ''arib-std-b67'', JStr ''smpte2084''}
         \<and> (hdr_like_colors \<or> hdr_like_bitdepth))"

text \<open>The branch of the \<^verbatim>\<open>if\<close>/\<^verbatim>\<open>elif\<close> chain of \<^verbatim>\<open>build_ffmpeg_command\<close> that is taken.\<close>

datatype ColorProfile = HLG | PQ | HeuristicHDR | SDR

definition classify :: "StreamMetadata \<Rightarrow> ColorProfile" where
  "classify m =
     (if transfer m = JStr ''arib-std-b67'' then HLG
      else if transfer m = JStr ''smpte2084'' then PQ
      else if is_hdr (transfer m) (colorSpace m) (primaries m) (pixelFormat m)
        then HeuristicHDR
      else SDR)"

text \<open>The \<^verbatim>\<open>filter_chain\<close> string each branch assigns.\<close>

fun filter_chain :: "ColorProfile \<Rightarrow> string" where
  "filter_chain HLG =
     ''zscale=t=linear:npl=100,format=gbrpf32le,'' @
     ''zscale=p=bt709,'' @
     ''tonemap=tonemap=hable:desat=0,'' @
     ''zscale=t=bt709:m=bt709:r=tv,format=yuv420p''"
| "filter_chain PQ =
     ''format=p010le,'' @
     ''zscale=t=linear:npl=100,format=gbrpf32le,'' @
     ''zscale=p=bt709,'' @
     ''tonemap=tonemap=hable:desat=0,'' @
     ''zscale=t=bt709:m=bt709:r=tv,format=yuv420p''"
| "filter_chain HeuristicHDR =
     ''format=p010le,'' @
     ''zscale=t=linear:npl=100,format=gbrpf32le,'' @
     ''zscale=p=bt709,'' @
     ''tonemap=tonemap=hable:desat=0,'' @
     ''zscale=t=bt709:m=bt709:r=tv,format=yuv420p''"
| "filter_chain SDR = ''colorspace=all=bt709:trc=bt709:format=yuv420p''"

text \<open>The argument list \<^verbatim>\<open>cmd\<close> handed to the media engine.\<close>

definition ffmpeg_cmd :: "string \<Rightarrow> string \<Rightarrow> string \<Rightarrow> string list" where
  "ffmpeg_cmd input_path chain output_path =
     [''ffmpeg'', ''-y'', ''-i'', input_path, ''-vf'', chain,
      ''-c:v'', ''libx264'', ''-preset'', ''slow'', ''-crf'', ''23'',
      ''-c:a'', ''copy'', output_path]"

text \<open>
  The engine reads a filter chain as stages separated by commas, and a stage as a name,
  \<^verbatim>\<open>=\<close>, and parameters separated by colons. \<open>split_on\<close> cuts a string at every
  occurrence of a separator, as \<^verbatim>\<open>str.split(sep)\<close> does for a one-character separator.
\<close>

fun split_on :: "char \<Rightarrow> string \<Rightarrow> string list" where
  "split_on sep [] = [[]]"
| "split_on sep (c # cs) =
     (case split_on sep cs of
        [] \<Rightarrow> [[c]]
      | w # ws \<Rightarrow> if c = sep then [] # w # ws else (c # w) # ws)"

definition stages :: "string \<Rightarrow> string list" where
  "stages chain = split_on CHR '','' chain"

section \<open>main.py: paths, external tools and the run\<close>

text \<open>
  \<^verbatim>\<open>os.path.basename\<close>: what follows the last \<^verbatim>\<open>/\<close> of a path string.
\<close>

definition basename :: "string \<Rightarrow> string" where
  "basename p = rev (takeWhile (\<lambda>c. c \<noteq> CHR ''/'') (rev p))"

text \<open>\<^verbatim>\<open>sep.join(xs)\<close>.\<close>

fun join_with :: "string \<Rightarrow> string list \<Rightarrow> string" where
  "join_with sep [] = []"
| "join_with sep [x] = x"
| "join_with sep (x # y # ys) = x @ sep @ join_with sep (y # ys)"

text \<open>
  A \<^verbatim>\<open>pathlib\<close> path on a POSIX system is held parsed: its root (empty, \<^verbatim>\<open>/\<close>, or
  \<^verbatim>\<open>//\<close> for exactly two leading slashes) and the list of its components, from which
  empty components and \<^verbatim>\<open>.\<close> are dropped. \<open>Path\<close> is the constructor \<^verbatim>\<open>Path(s)\<close>,
  \<open>path_str\<close> is \<^verbatim>\<open>str(p)\<close> (the path without components and without root is written
  \<^verbatim>\<open>.\<close>), \<open>path_div\<close> is the operator \<^verbatim>\<open>p / s\<close> (an absolute \<^verbatim>\<open>s\<close> replaces
  \<^verbatim>\<open>p\<close>), \<open>make_child\<close> is how \<^verbatim>\<open>iterdir\<close> forms the path of a directory entry from
  its name, \<open>path_name\<close> is \<^verbatim>\<open>p.name\<close> and \<open>path_parent\<close> is \<^verbatim>\<open>p.parent\<close>.
\<close>

datatype pure_path = PurePath (p_root: string) (p_tail: "string list")

definition parse_root :: "string \<Rightarrow> string" where
  "parse_root s =
     (if prefix ''//'' s \<and> \<not> prefix ''///'' s then ''//''
      else if prefix ''/'' s then ''/''
      else [])"

definition parse_tail :: "string \<Rightarrow> string list" where
  "parse_tail s = filter (\<lambda>x. x \<noteq> [] \<and> x \<noteq> ''.'') (split_on CHR ''/'' s)"

definition Path :: "string \<Rightarrow> pure_path" where
  "Path s = PurePath (parse_root s) (parse_tail s)"

definition path_str :: "pure_path \<Rightarrow> string" where
  "path_str p =
     (if p_root p = [] \<and> p_tail p = [] then ''.''
      else p_root p @ join_with ''/'' (p_tail p))"

definition path_div :: "pure_path \<Rightarrow> string \<Rightarrow> pure_path" where
  "path_div p s =
     (if parse_root s \<noteq> [] then Path s
      else PurePath (p_root p) (p_tail p @ parse_tail s))"

definition make_child :: "pure_path \<Rightarrow> string \<Rightarrow> pure_path" where
  "make_child p name = PurePath (p_root p) (p_tail p @ [name])"

definition path_name :: "pure_path \<Rightarrow> string" where
  "path_name p = (if p_tail p = [] then [] else last (p_tail p))"

definition path_parent :: "pure_path \<Rightarrow> pure_path" where
  "path_parent p = PurePath (p_root p) (butlast (p_tail p))"

text \<open>\<^verbatim>\<open>s.rfind(c)\<close>, with \<open>None\<close> for Python's \<^verbatim>\<open>-1\<close>.\<close>

definition rfind :: "char \<Rightarrow> string \<Rightarrow> nat option" where
  "rfind c s =
     (if c \<in> set s then Some (length s - 1 - length (takeWhile (\<lambda>x. x \<noteq> c) (rev s)))
      else None)"

text \<open>
  \<^verbatim>\<open>PurePath.suffix\<close> and \<^verbatim>\<open>PurePath.stem\<close> as \<^verbatim>\<open>pathlib\<close> defines them (up to
  Python 3.13): with \<^verbatim>\<open>i = name.rfind('.')\<close>, the suffix is \<^verbatim>\<open>name[i:]\<close> and the stem
  \<^verbatim>\<open>name[:i]\<close> when \<^verbatim>\<open>0 < i < len(name) - 1\<close>; otherwise the suffix is empty and the
  stem is the whole name.
\<close>

definition path_suffix :: "pure_path \<Rightarrow> string" where
  "path_suffix p =
     (let name = path_name p in
      case rfind CHR ''.'' name of
        None \<Rightarrow> []
      | Some i \<Rightarrow> if 0 < i \<and> i + 1 < length name then drop i name else [])"

definition path_stem :: "pure_path \<Rightarrow> string" where
  "path_stem p =
     (let name = path_name p in
      case rfind CHR ''.'' name of
        None \<Rightarrow> name
      | Some i \<Rightarrow> if 0 < i \<and> i + 1 < length name then take i name else name)"

text \<open>
  The exceptions a probe can raise, and the outcome of running the media engine with
  \<^verbatim>\<open>check=True\<close>: it returns, or raises \<^verbatim>\<open>CalledProcessError\<close> carrying the bytes
  of the error stream. \<open>EncodeFailed (Some text)\<close> is a failure whose error stream
  decodes to \<open>text\<close>; \<open>EncodeFailed None\<close> is a failure whose error stream is not valid
  UTF-8, on which \<^verbatim>\<open>e.stderr.decode()\<close> raises \<^verbatim>\<open>UnicodeDecodeError\<close>.
\<close>

datatype probe_exn = CalledProcessError | JSONDecodeError | KeyError | IndexError

datatype encode_result = EncodeOk | EncodeFailed "string option"

text \<open>
  The file system and the two external programs, over a state \<open>'w\<close> of the outside
  world: creating a directory and running the media engine change it, the other
  operations read it. Every operation takes the path as the string \<^verbatim>\<open>str(p)\<close>.
  \<open>listdir\<close> gives the names of the entries of a directory, in the order the operating
  system lists them.
\<close>

record 'w tools =
  is_dir :: "'w \<Rightarrow> string \<Rightarrow> bool"
  is_file :: "'w \<Rightarrow> string \<Rightarrow> bool"
  path_exists :: "'w \<Rightarrow> string \<Rightarrow> bool"
  listdir :: "'w \<Rightarrow> string \<Rightarrow> string list"
  makedirs :: "'w \<Rightarrow> string \<Rightarrow> 'w"
  ffprobe :: "'w \<Rightarrow> string \<Rightarrow> probe_response"
  ffmpeg :: "'w \<Rightarrow> string list \<Rightarrow> encode_result \<times> 'w"

text \<open>\<^verbatim>\<open>p.iterdir()\<close>: the children of \<open>p\<close> as paths.\<close>

definition iterdir :: "'w tools \<Rightarrow> 'w \<Rightarrow> pure_path \<Rightarrow> pure_path list" where
  "iterdir T w p = map (make_child p) (listdir T w (path_str p))"

text \<open>
  What the program prints, one constructor per \<^verbatim>\<open>print\<close> call. \<open>PrintType\<close> is the
  message of the branch taken in \<^verbatim>\<open>build_ffmpeg_command\<close> (for \<open>HeuristicHDR\<close> the
  fallback warning). \<open>UncaughtDecodeError\<close> is the traceback of the
  \<^verbatim>\<open>UnicodeDecodeError\<close> that nothing catches.
\<close>

datatype event =
    PrintProbeError string probe_exn
  | PrintDetected jval
  | PrintType ColorProfile
  | PrintNotFound string
  | PrintProcessing string string
  | PrintDone string
  | PrintEncodeError string string
  | PrintBatchMode string
  | PrintNoVideoFiles
  | PrintInvalidInput
  | UncaughtDecodeError

text \<open>
  \<^verbatim>\<open>get_video_info\<close>: every exception is caught, reported, and followed by
  \<^verbatim>\<open>sys.exit(1)\<close>; \<open>Inl code\<close> is that exit. \<^verbatim>\<open>data.get("streams", [])[0]\<close> raises
  \<^verbatim>\<open>IndexError\<close> when the entry is absent or empty.
\<close>

definition get_video_info :: "'w tools \<Rightarrow> 'w \<Rightarrow> string \<Rightarrow> event list \<times> (nat + info)" where
  "get_video_info T w file_path =
     (case ffprobe T w file_path of
        NonZeroExit \<Rightarrow> ([PrintProbeError file_path CalledProcessError], Inl 1)
      | Unparseable \<Rightarrow> ([PrintProbeError file_path JSONDecodeError], Inl 1)
      | Response None \<Rightarrow> ([PrintProbeError file_path IndexError], Inl 1)
      | Response (Some []) \<Rightarrow> ([PrintProbeError file_path IndexError], Inl 1)
      | Response (Some (stream_info # _)) \<Rightarrow> ([], Inr stream_info))"

definition build_ffmpeg_command ::
    "'w tools \<Rightarrow> 'w \<Rightarrow> string \<Rightarrow> string \<Rightarrow> event list \<times> (nat + string list)" where
  "build_ffmpeg_command T w input_path output_path =
     (case get_video_info T w input_path of
        (ev, Inl code) \<Rightarrow> (ev, Inl code)
      | (ev, Inr info) \<Rightarrow>
          (let m = metadata_of info; profile = classify m
           in (ev @ [PrintDetected (transfer m), PrintType profile],
               Inr (ffmpeg_cmd input_path (filter_chain profile) output_path))))"

text \<open>
  \<^verbatim>\<open>process_single_file\<close>: the second component is \<open>Some code\<close> when the process
  has ended with that code inside the call, \<open>None\<close> when the call returned. The
  \<^verbatim>\<open>except\<close> clause formats its message with \<^verbatim>\<open>e.stderr.decode()\<close>; when that
  raises, the exception is uncaught and the process ends with code 1.
\<close>

definition process_single_file ::
    "'w tools \<Rightarrow> 'w \<Rightarrow> string \<Rightarrow> string \<Rightarrow> event list \<times> nat option \<times> 'w" where
  "process_single_file T w input_path output_path =
     (if \<not> path_exists T w input_path then ([PrintNotFound input_path], None, w)
      else
        (case build_ffmpeg_command T w input_path output_path of
           (ev, Inl code) \<Rightarrow> (PrintProcessing input_path output_path # ev, Some code, w)
         | (ev, Inr cmd) \<Rightarrow>
             (case ffmpeg T w cmd of
                (EncodeOk, w') \<Rightarrow>
                  (PrintProcessing input_path output_path # ev
                     @ [PrintDone (basename output_path)], None, w')
              | (EncodeFailed (Some err), w') \<Rightarrow>
                  (PrintProcessing input_path output_path # ev
                     @ [PrintEncodeError input_path err], None, w')
              | (EncodeFailed None, w') \<Rightarrow>
                  (PrintProcessing input_path output_path # ev
                     @ [UncaughtDecodeError], Some 1, w'))))"

definition supported_ext :: "string set" where
  "supported_ext = {''.mp4'', ''.mov'', ''.mkv'', ''.avi''}"

definition new_filename :: "pure_path \<Rightarrow> string" where
  "new_filename video_file = path_stem video_file @ ''_normalized'' @ path_suffix video_file"

text \<open>The \<^verbatim>\<open>for video_file in files\<close> loop of \<^verbatim>\<open>main\<close>; an exit inside a call ends it.\<close>

fun batch_loop ::
    "'w tools \<Rightarrow> 'w \<Rightarrow> pure_path \<Rightarrow> pure_path list \<Rightarrow> event list \<times> nat option \<times> 'w" where
  "batch_loop T w output_path [] = ([], None, w)"
| "batch_loop T w output_path (video_file # rest) =
     (let destination = path_div output_path (new_filename video_file)
      in case process_single_file T w (path_str video_file) (path_str destination) of
           (ev, Some code, w') \<Rightarrow> (ev, Some code, w')
         | (ev, None, w') \<Rightarrow>
             (case batch_loop T w' output_path rest of
                (ev', st, w'') \<Rightarrow> (ev @ ev', st, w'')))"

text \<open>A run that returns from \<^verbatim>\<open>main\<close> ends the process with exit code 0.\<close>

definition exit_code :: "nat option \<Rightarrow> nat" where
  "exit_code st = (case st of None \<Rightarrow> 0 | Some code \<Rightarrow> code)"

text \<open>\<^verbatim>\<open>main\<close>, on the two command-line arguments.\<close>

definition main :: "'w tools \<Rightarrow> 'w \<Rightarrow> string \<Rightarrow> string \<Rightarrow> event list \<times> nat \<times> 'w" where
  "main T w input output =
     (let input_path = Path input; output_path = Path output
      in if is_dir T w (path_str input_path) then
           (let w1 = (if \<not> path_exists T w (path_str output_path)
                      then makedirs T w (path_str output_path) else w);
                files = filter (\<lambda>f. lower (path_suffix f) \<in> supported_ext)
                          (iterdir T w1 input_path)
            in if files = []
               then ([PrintBatchMode (path_str input_path), PrintNoVideoFiles], 0, w1)
               else
                 (case batch_loop T w1 output_path files of
                    (ev, st, w2) \<Rightarrow>
                      (PrintBatchMode (path_str input_path) # ev, exit_code st, w2)))
         else if is_file T w (path_str input_path) then
           (let parent = path_parent output_path;
                w1 = (if path_name parent \<noteq> [] \<and> \<not> path_exists T w (path_str parent)
                      then makedirs T w (path_str parent) else w)
            in case process_single_file T w1 (path_str input_path) (path_str output_path) of
                 (ev, st, w2) \<Rightarrow> (ev, exit_code st, w2))
         else ([PrintInvalidInput], 1, w))"





text \<open>
  A small world for concrete runs: \<open>videos\<close> and \<open>outputs\<close> are directories, \<open>videos\<close>
  holds entries of the given names, every path exists, and the two external programs
  answer as the given functions say.
\<close>

definition fixed_world ::
    "string list \<Rightarrow> (string \<Rightarrow> probe_response) \<Rightarrow> (string list \<Rightarrow> encode_result)
       \<Rightarrow> unit tools" where
  "fixed_world entries probe engine =
     \<lparr> is_dir = (\<lambda>w p. p = ''videos'' \<or> p = ''outputs''),
       is_file = (\<lambda>w p. False),
       path_exists = (\<lambda>w p. True),
       listdir = (\<lambda>w p. if p = ''videos'' then entries else []),
       makedirs = (\<lambda>w p. w),
       ffprobe = (\<lambda>w. probe),
       ffmpeg = (\<lambda>w cmd. (engine cmd, w)) \<rparr>"

section \<open>verify.py\<close>

text \<open>\<^verbatim>\<open>get_metadata\<close>: \<open>Inl\<close> is the exception it raises.\<close>

definition get_metadata :: "(string \<Rightarrow> probe_response) \<Rightarrow> string \<Rightarrow> probe_exn + info" where
  "get_metadata probe file_path =
     (case probe file_path of
        NonZeroExit \<Rightarrow> Inl CalledProcessError
      | Unparseable \<Rightarrow> Inl JSONDecodeError
      | Response None \<Rightarrow> Inl KeyError
      | Response (Some []) \<Rightarrow> Inl IndexError
      | Response (Some (stream # _)) \<Rightarrow> Inr stream)"

text \<open>The \<^verbatim>\<open>expected\<close> dictionary, in insertion order, which is the order of iteration.\<close>

definition expected :: "(string \<times> string) list" where
  "expected =
     [(''pix_fmt'', ''yuv420p''),
      (''color_space'', ''bt709''),
      (''color_primaries'', ''bt709''),
      (''color_transfer'', ''bt709'')]"

text \<open>The f-string \<^verbatim>\<open>"{key}: expected '{expected_value}', got '{actual_value}'"\<close>.\<close>

definition mismatch_line :: "string \<Rightarrow> string \<Rightarrow> jval \<Rightarrow> string" where
  "mismatch_line key expected_value actual_value =
     key @ '': expected '' @ [CHR 0x27] @ expected_value @ [CHR 0x27]
         @ '', got '' @ [CHR 0x27] @ py_str actual_value @ [CHR 0x27]"

text \<open>The loop over \<^verbatim>\<open>expected.items()\<close>, appending to \<^verbatim>\<open>errors\<close>.\<close>

fun check_loop :: "info \<Rightarrow> (string \<times> string) list \<Rightarrow> string list \<Rightarrow> string list" where
  "check_loop data [] errors = errors"
| "check_loop data ((key, expected_value) # rest) errors =
     (let actual_value = dict_get data key (JStr ''unknown'')
      in check_loop data rest
           (if actual_value \<noteq> JStr expected_value
            then errors @ [mismatch_line key expected_value actual_value]
            else errors))"

datatype vmsg =
    Verifying string
  | CouldNotReadMetadata probe_exn
  | Pass
  | Fail
  | MismatchLine string
  | NoOutputFiles
  | AllFilesMatch
  | SomeFilesFailed

definition check_file :: "(string \<Rightarrow> probe_response) \<Rightarrow> string \<Rightarrow> vmsg list \<times> bool" where
  "check_file probe file_path =
     (case get_metadata probe file_path of
        Inl e \<Rightarrow> ([Verifying (basename file_path), CouldNotReadMetadata e], False)
      | Inr data \<Rightarrow>
          (let errors = check_loop data expected []
           in if errors = [] then ([Verifying (basename file_path), Pass], True)
              else (Verifying (basename file_path) # Fail # map MismatchLine errors, False)))"

text \<open>The loop of \<^verbatim>\<open>main\<close> in verify.py: every file is checked, whatever came before.\<close>

fun verify_loop ::
    "(string \<Rightarrow> probe_response) \<Rightarrow> string list \<Rightarrow> bool \<Rightarrow> vmsg list \<times> bool" where
  "verify_loop probe [] all_passed = ([], all_passed)"
| "verify_loop probe (file_path # rest) all_passed =
     (case check_file probe file_path of
        (out, ok) \<Rightarrow>
          (case verify_loop probe rest (if \<not> ok then False else all_passed) of
             (out', res) \<Rightarrow> (out @ out', res)))"

text \<open>
  \<^verbatim>\<open>main\<close> of verify.py, on the list \<open>files\<close> that
  \<^verbatim>\<open>glob("outputs/*_normalized.mp4")\<close> returned; the result is what was printed and
  the exit code.
\<close>

definition verify_main :: "(string \<Rightarrow> probe_response) \<Rightarrow> string list \<Rightarrow> vmsg list \<times> nat" where
  "verify_main probe files =
     (if files = [] then ([NoOutputFiles], 1)
      else
        (case verify_loop probe files True of
           (out, all_passed) \<Rightarrow>
             if all_passed then (out @ [AllFilesMatch], 0)
             else (out @ [SomeFilesFailed], 1)))"

section \<open>Auxiliary facts\<close>

lemma lower_char_idem: "lower_char (lower_char c) = lower_char c"
  by (auto simp: lower_char_def Let_def)

lemma lower_idem: "lower (lower s) = lower s"
  by (simp add: lower_def lower_char_idem)

text \<open>\<open>str_in\<close> is the contiguous-sublist relation of the library.\<close>

lemma str_in_sublist: "str_in sub s = sublist sub s"
  by (induction s) (simp_all add: sublist_Cons_right)

lemma check_loop_filter:
  "check_loop data xs errors =
     errors @ map (\<lambda>(k, e). mismatch_line k e (dict_get data k (JStr ''unknown'')))
                (filter (\<lambda>(k, e). dict_get data k (JStr ''unknown'') \<noteq> JStr e) xs)"
  by (induction xs arbitrary: errors) (auto simp: Let_def)

lemma check_loop_expected:
  "check_loop data expected [] =
     (if dict_get data ''pix_fmt'' (JStr ''unknown'') \<noteq> JStr ''yuv420p''
      then [mismatch_line ''pix_fmt'' ''yuv420p'' (dict_get data ''pix_fmt'' (JStr ''unknown''))]
      else [])
     @ (if dict_get data ''color_space'' (JStr ''unknown'') \<noteq> JStr ''bt709''
        then [mismatch_line ''color_space'' ''bt709''
                (dict_get data ''color_space'' (JStr ''unknown''))]
        else [])
     @ (if dict_get data ''color_primaries'' (JStr ''unknown'') \<noteq> JStr ''bt709''
        then [mismatch_line ''color_primaries'' ''bt709''
                (dict_get data ''color_primaries'' (JStr ''unknown''))]
        else [])
     @ (if dict_get data ''color_transfer'' (JStr ''unknown'') \<noteq> JStr ''bt709''
        then [mismatch_line ''color_transfer'' ''bt709''
                (dict_get data ''color_transfer'' (JStr ''unknown''))]
        else [])"
  by (simp add: expected_def Let_def)

lemma dict_get_unknown_eq:
  "e \<noteq> ''unknown'' \<Longrightarrow>
     dict_get data k (JStr ''unknown'') = JStr e \<longleftrightarrow> data k = Some (JStr e)"
  by (simp add: dict_get_def split: option.splits)

lemma check_file_parsed:
  assumes "probe file_path = Response (Some (data # others))"
  shows "check_file probe file_path =
      (if check_loop data expected [] = []
       then ([Verifying (basename file_path), Pass], True)
       else (Verifying (basename file_path) # Fail
               # map MismatchLine (check_loop data expected []), False))"
  using assms by (simp add: check_file_def get_metadata_def Let_def)

lemma check_file_unparsed:
  assumes "\<nexists>data others. probe file_path = Response (Some (data # others))"
  shows "\<not> snd (check_file probe file_path)"
  using assms
  by (auto simp: check_file_def get_metadata_def
      split: probe_response.splits option.splits list.splits)

lemma verify_loop_eq:
  "verify_loop probe files all_passed =
     (concat (map (\<lambda>f. fst (check_file probe f)) files),
      all_passed \<and> (\<forall>f \<in> set files. snd (check_file probe f)))"
  by (induction files arbitrary: all_passed) (auto split: prod.splits)

lemma check_file_no_summary: "NoOutputFiles \<notin> set (fst (check_file probe f))"
  by (auto simp: check_file_def Let_def split: sum.splits)







text \<open>Stem and suffix split the name: nothing of it is lost in the output name.\<close>

lemma stem_suffix_name: "path_stem p @ path_suffix p = path_name p"
  by (simp add: path_stem_def path_suffix_def Let_def split: option.splits)




text \<open>
  The sibling path of a probe failure: when the media engine fails on the first file
  of a batch, the failure is printed, the next file is processed, and the exit code is 0.
\<close>

lemma batch_encode_failure_continues:
  "main (fixed_world [''a.mp4'', ''b.mp4'']
           (\<lambda>p. Response (Some [[''pix_fmt'' \<mapsto> JStr ''yuv420p'']]))
           (\<lambda>cmd. if cmd ! 3 = ''videos/a.mp4'' then EncodeFailed (Some ''moov atom not found'')
                   else EncodeOk))
        () ''videos'' ''outputs''
   = ([PrintBatchMode ''videos'',
       PrintProcessing ''videos/a.mp4'' ''outputs/a_normalized.mp4'',
       PrintDetected (JStr ''unknown''), PrintType SDR,
       PrintEncodeError ''videos/a.mp4'' ''moov atom not found'',
       PrintProcessing ''videos/b.mp4'' ''outputs/b_normalized.mp4'',
       PrintDetected (JStr ''unknown''), PrintType SDR,
       PrintDone ''b_normalized.mp4''], 0, ())"
  by code_simp

text \<open>
  A failure of the media engine whose error stream does not decode ends the run; and
  the output directory is normalised before the file name is joined to it.
\<close>

lemma batch_undecodable_failure_ends_run:
  "main (fixed_world [''a.mp4'', ''b.mp4'']
           (\<lambda>p. Response (Some [[''pix_fmt'' \<mapsto> JStr ''yuv420p'']]))
           (\<lambda>cmd. if cmd ! 3 = ''videos/a.mp4'' then EncodeFailed None else EncodeOk))
        () ''videos'' ''outputs''
   = ([PrintBatchMode ''videos'',
       PrintProcessing ''videos/a.mp4'' ''outputs/a_normalized.mp4'',
       PrintDetected (JStr ''unknown''), PrintType SDR, UncaughtDecodeError], 1, ())"
  by code_simp

lemma output_directory_normalised:
  "path_str (path_div (Path ''.'') ''a_normalized.mp4'') = ''a_normalized.mp4''
   \<and> path_str (path_div (Path ''outputs/'') ''a_normalized.mp4'')
       = ''outputs/a_normalized.mp4''"
  by code_simp

section \<open>Properties of the classifier and the filter chains\<close>

text \<open>
  C5. The filter chain built for the \<open>HeuristicHDR\<close> profile is the one built for the
  \<open>PQ\<close> profile: the same string, hence the same stages with the same parameters in
  the same order, and the same command for the media engine.
\<close>

theorem heuristic_hdr_plan_is_pq_plan:
  "filter_chain HeuristicHDR = filter_chain PQ
   \<and> stages (filter_chain HeuristicHDR) = stages (filter_chain PQ)
   \<and> ffmpeg_cmd input_path (filter_chain HeuristicHDR) output_path
       = ffmpeg_cmd input_path (filter_chain PQ) output_path"
  by simp

text \<open>
  C2, as the code has it. The transfer is taken from the response as it is (not
  lower-cased), and is \<open>unknown\<close> when the response has no \<open>color_transfer\<close> entry. The
  other three fields are the lower-cased strings of the response, and the empty string
  (not \<open>unknown\<close>) when the entry is absent, \<^verbatim>\<open>null\<close> or empty; each of the three is
  lower-case.
\<close>

theorem metadata_of_fields:
  "transfer (metadata_of info)
     = (case info ''color_transfer'' of None \<Rightarrow> JStr ''unknown'' | Some v \<Rightarrow> v)
   \<and> colorSpace (metadata_of info)
     = (case info ''color_space'' of Some (JStr s) \<Rightarrow> lower s | _ \<Rightarrow> [])
   \<and> primaries (metadata_of info)
     = (case info ''color_primaries'' of Some (JStr s) \<Rightarrow> lower s | _ \<Rightarrow> [])
   \<and> pixelFormat (metadata_of info)
     = (case info ''pix_fmt'' of Some (JStr s) \<Rightarrow> lower s | _ \<Rightarrow> [])
   \<and> lower (colorSpace (metadata_of info)) = colorSpace (metadata_of info)
   \<and> lower (primaries (metadata_of info)) = primaries (metadata_of info)
   \<and> lower (pixelFormat (metadata_of info)) = pixelFormat (metadata_of info)"
  by (simp add: metadata_of_def dict_get_def get_or_empty_def lower_idem
           split: option.splits jval.splits) (simp add: lower_def)

theorem metadata_of_fields_witness:
  "transfer (metadata_of [''pix_fmt'' \<mapsto> JStr ''YUV420P'']) = JStr ''unknown''
   \<and> colorSpace (metadata_of [''pix_fmt'' \<mapsto> JStr ''YUV420P'']) = []
   \<and> pixelFormat (metadata_of [''pix_fmt'' \<mapsto> JStr ''YUV420P'']) = ''yuv420p''"
proof -
  have "lower ''YUV420P'' = ''yuv420p''"
    by code_simp
  then show ?thesis
    using metadata_of_fields [of "[''pix_fmt'' \<mapsto> JStr ''YUV420P'']"] by simp
qed

text \<open>
  C2 as stated fails: for a response that carries only the pixel format, the colour
  space and the primaries are the empty string, not \<open>unknown\<close>; and a transfer written
  in capitals is kept in capitals.
\<close>

theorem metadata_defaults_counterexample:
  "colorSpace (metadata_of [''pix_fmt'' \<mapsto> JStr ''yuv420p'']) = []
   \<and> primaries (metadata_of [''pix_fmt'' \<mapsto> JStr ''yuv420p'']) = []
   \<and> colorSpace (metadata_of [''pix_fmt'' \<mapsto> JStr ''yuv420p'']) \<noteq> ''unknown''
   \<and> transfer (metadata_of [''color_transfer'' \<mapsto> JStr ''SMPTE2084'']) = JStr ''SMPTE2084''
   \<and> lower ''SMPTE2084'' \<noteq> ''SMPTE2084''"
proof -
  have "lower ''SMPTE2084'' = ''smpte2084''"
    by code_simp
  then show ?thesis
    by (simp add: metadata_of_def get_or_empty_def dict_get_def) (simp add: lower_def)
qed

text \<open>
  C3. When the transfer is neither \<open>arib-std-b67\<close> nor \<open>smpte2084\<close>, the classification
  is \<open>HeuristicHDR\<close> exactly when the primaries or the colour space contain \<open>bt2020\<close>, or
  the pixel format is in the fixed set or contains \<open>10le\<close> or \<open>12le\<close>; and it is \<open>SDR\<close>
  exactly when none of these holds.
\<close>

theorem classify_heuristic_or_sdr:
  assumes "transfer m \<noteq> JStr ''arib-std-b67''" and "transfer m \<noteq> JStr ''smpte2084''"
  shows "(classify m = HeuristicHDR \<longleftrightarrow>
            (str_in ''bt2020'' (primaries m) \<or> str_in ''bt2020'' (colorSpace m)
             \<or> pixelFormat m \<in> {''p010le'', ''p016le'',
                 ''yuv420p10le'', ''yuv422p10le'', ''yuv444p10le'',
                 ''yuv420p12le'', ''yuv422p12le'', ''yuv444p12le''}
             \<or> str_in ''10le'' (pixelFormat m) \<or> str_in ''12le'' (pixelFormat m)))
       \<and> (classify m = SDR \<longleftrightarrow>
            \<not> (str_in ''bt2020'' (primaries m) \<or> str_in ''bt2020'' (colorSpace m)
             \<or> pixelFormat m \<in> {''p010le'', ''p016le'',
                 ''yuv420p10le'', ''yuv422p10le'', ''yuv444p10le'',
                 ''yuv420p12le'', ''yuv422p12le'', ''yuv444p12le''}
             \<or> str_in ''10le'' (pixelFormat m) \<or> str_in ''12le'' (pixelFormat m)))"
  using assms unfolding classify_def is_hdr_def hdr_pix_fmts_def Let_def
  by auto

theorem classify_heuristic_or_sdr_witness:
  "transfer \<lparr>transfer = JStr ''unknown'', colorSpace = ''bt709'',
             primaries = ''bt709'', pixelFormat = ''yuv420p10le''\<rparr> \<noteq> JStr ''arib-std-b67''
   \<and> transfer \<lparr>transfer = JStr ''unknown'', colorSpace = ''bt709'',
               primaries = ''bt709'', pixelFormat = ''yuv420p10le''\<rparr> \<noteq> JStr ''smpte2084''
   \<and> classify \<lparr>transfer = JStr ''unknown'', colorSpace = ''bt709'',
               primaries = ''bt709'', pixelFormat = ''yuv420p10le''\<rparr> = HeuristicHDR
   \<and> classify \<lparr>transfer = JStr ''bt709'', colorSpace = ''bt709'',
               primaries = ''bt709'', pixelFormat = ''yuv420p''\<rparr> = SDR"
  using classify_heuristic_or_sdr
          [of "\<lparr>transfer = JStr ''unknown'', colorSpace = ''bt709'',
                primaries = ''bt709'', pixelFormat = ''yuv420p10le''\<rparr>"]
        classify_heuristic_or_sdr
          [of "\<lparr>transfer = JStr ''bt709'', colorSpace = ''bt709'',
                primaries = ''bt709'', pixelFormat = ''yuv420p''\<rparr>"]
  by simp

text \<open>
  C4. A transfer of exactly \<open>arib-std-b67\<close> is classified \<open>HLG\<close> and a transfer of exactly
  \<open>smpte2084\<close> is classified \<open>PQ\<close>, whatever the colour space, the primaries and the pixel
  format are.
\<close>

theorem classify_hlg_pq_precedence:
  "(transfer m = JStr ''arib-std-b67'' \<longrightarrow> classify m = HLG)
   \<and> (transfer m = JStr ''smpte2084'' \<longrightarrow> classify m = PQ)"
  by (simp add: classify_def)

theorem classify_hlg_pq_precedence_witness:
  "classify \<lparr>transfer = JStr ''arib-std-b67'', colorSpace = ''bt2020nc'',
             primaries = ''bt2020'', pixelFormat = ''yuv420p10le''\<rparr> = HLG
   \<and> classify \<lparr>transfer = JStr ''smpte2084'', colorSpace = ''bt709'',
               primaries = ''bt709'', pixelFormat = ''yuv420p''\<rparr> = PQ"
  using classify_hlg_pq_precedence
          [of "\<lparr>transfer = JStr ''arib-std-b67'', colorSpace = ''bt2020nc'',
                primaries = ''bt2020'', pixelFormat = ''yuv420p10le''\<rparr>"]
        classify_hlg_pq_precedence
          [of "\<lparr>transfer = JStr ''smpte2084'', colorSpace = ''bt709'',
                primaries = ''bt709'', pixelFormat = ''yuv420p''\<rparr>"]
  by simp

text \<open>
  C6. The response \<open>{color_transfer: smpte2084, color_space: bt2020nc, color_primaries:
  bt2020, pix_fmt: yuv420p10le}\<close> is classified \<open>PQ\<close>, and the stages of the chain built
  for it are, in this order: force the 10-bit format \<open>p010le\<close>; linearize with nominal
  peak luminance 100; float working format; primaries to BT.709; Hable tone mapping with
  desaturation 0; transfer and matrix to BT.709 at limited range; planar 8-bit \<open>yuv420p\<close>.
  \<^verbatim>\<open>build_ffmpeg_command\<close> on a file with this response prints the PQ message and
  returns the engine command with this chain.
\<close>

theorem pq_scenario_plan:
  "classify (metadata_of [''color_transfer'' \<mapsto> JStr ''smpte2084'',
                          ''color_space'' \<mapsto> JStr ''bt2020nc'',
                          ''color_primaries'' \<mapsto> JStr ''bt2020'',
                          ''pix_fmt'' \<mapsto> JStr ''yuv420p10le'']) = PQ
   \<and> stages (filter_chain
               (classify (metadata_of [''color_transfer'' \<mapsto> JStr ''smpte2084'',
                                       ''color_space'' \<mapsto> JStr ''bt2020nc'',
                                       ''color_primaries'' \<mapsto> JStr ''bt2020'',
                                       ''pix_fmt'' \<mapsto> JStr ''yuv420p10le'']))) =
       [''format=p010le'',
        ''zscale=t=linear:npl=100'',
        ''format=gbrpf32le'',
        ''zscale=p=bt709'',
        ''tonemap=tonemap=hable:desat=0'',
        ''zscale=t=bt709:m=bt709:r=tv'',
        ''format=yuv420p'']
   \<and> build_ffmpeg_command
         (fixed_world [''hdr.mp4'']
            (\<lambda>p. Response (Some [[''color_transfer'' \<mapsto> JStr ''smpte2084'',
                                   ''color_space'' \<mapsto> JStr ''bt2020nc'',
                                   ''color_primaries'' \<mapsto> JStr ''bt2020'',
                                   ''pix_fmt'' \<mapsto> JStr ''yuv420p10le'']]))
            (\<lambda>cmd. EncodeOk))
         () ''videos/hdr.mp4'' ''outputs/hdr_normalized.mp4''
       = ([PrintDetected (JStr ''smpte2084''), PrintType PQ],
          Inr [''ffmpeg'', ''-y'', ''-i'', ''videos/hdr.mp4'', ''-vf'',
               ''format=p010le,zscale=t=linear:npl=100,format=gbrpf32le,zscale=p=bt709,tonemap=tonemap=hable:desat=0,zscale=t=bt709:m=bt709:r=tv,format=yuv420p'',
               ''-c:v'', ''libx264'', ''-preset'', ''slow'', ''-crf'', ''23'',
               ''-c:a'', ''copy'', ''outputs/hdr_normalized.mp4''])"
  by (simp add: classify_def metadata_of_def dict_get_def stages_def
        build_ffmpeg_command_def get_video_info_def fixed_world_def ffmpeg_cmd_def)

section \<open>Properties of the verifier\<close>

text \<open>
  C7. A file passes exactly when its probe gives a stream object whose four fields are
  \<open>yuv420p\<close>, \<open>bt709\<close>, \<open>bt709\<close>, \<open>bt709\<close>. For a stream object \<open>data\<close>, the mismatch lines
  printed are, in the order of the expected table, one line for each field whose actual
  value differs, naming the field, the expected and the actual value; and the file passes
  exactly when there is no such line.
\<close>

theorem check_file_passes_iff:
  "(snd (check_file probe file_path) \<longleftrightarrow>
      (\<exists>data others. probe file_path = Response (Some (data # others))
         \<and> data ''pix_fmt'' = Some (JStr ''yuv420p'')
         \<and> data ''color_space'' = Some (JStr ''bt709'')
         \<and> data ''color_primaries'' = Some (JStr ''bt709'')
         \<and> data ''color_transfer'' = Some (JStr ''bt709'')))
   \<and> (\<forall>data others. probe file_path = Response (Some (data # others)) \<longrightarrow>
         (let mismatches =
                (if dict_get data ''pix_fmt'' (JStr ''unknown'') \<noteq> JStr ''yuv420p''
                 then [mismatch_line ''pix_fmt'' ''yuv420p''
                         (dict_get data ''pix_fmt'' (JStr ''unknown''))]
                 else [])
                @ (if dict_get data ''color_space'' (JStr ''unknown'') \<noteq> JStr ''bt709''
                   then [mismatch_line ''color_space'' ''bt709''
                           (dict_get data ''color_space'' (JStr ''unknown''))]
                   else [])
                @ (if dict_get data ''color_primaries'' (JStr ''unknown'') \<noteq> JStr ''bt709''
                   then [mismatch_line ''color_primaries'' ''bt709''
                           (dict_get data ''color_primaries'' (JStr ''unknown''))]
                   else [])
                @ (if dict_get data ''color_transfer'' (JStr ''unknown'') \<noteq> JStr ''bt709''
                   then [mismatch_line ''color_transfer'' ''bt709''
                           (dict_get data ''color_transfer'' (JStr ''unknown''))]
                   else [])
          in fst (check_file probe file_path) =
               Verifying (basename file_path)
                 # (if mismatches = [] then [Pass] else Fail # map MismatchLine mismatches)
             \<and> (snd (check_file probe file_path) \<longleftrightarrow> mismatches = [])))"
proof (cases "\<exists>data others. probe file_path = Response (Some (data # others))")
  case False
  then show ?thesis
    using check_file_unparsed [of probe file_path] by auto
next
  case True
  then obtain data others where p: "probe file_path = Response (Some (data # others))"
    by blast
  note cf = check_file_parsed [of probe file_path data others, OF p]
  show ?thesis
    unfolding cf check_loop_expected Let_def p
    by (simp add: dict_get_unknown_eq)
qed

theorem check_file_passes_iff_witness:
  "check_file
     (\<lambda>_. Response (Some [[''pix_fmt'' \<mapsto> JStr ''yuv420p'', ''color_space'' \<mapsto> JStr ''bt709'',
                            ''color_primaries'' \<mapsto> JStr ''bt709'',
                            ''color_transfer'' \<mapsto> JStr ''bt709'']]))
     ''outputs/a_normalized.mp4''
     = ([Verifying ''a_normalized.mp4'', Pass], True)
   \<and> check_file
     (\<lambda>_. Response (Some [[''pix_fmt'' \<mapsto> JStr ''yuv420p10le'',
                            ''color_space'' \<mapsto> JStr ''bt709'',
                            ''color_primaries'' \<mapsto> JStr ''bt709'',
                            ''color_transfer'' \<mapsto> JStr ''bt709'']]))
     ''outputs/a_normalized.mp4''
     = ([Verifying ''a_normalized.mp4'', Fail,
         MismatchLine (''pix_fmt: expected 'yuv420p', got 'yuv420p10le'' @ [CHR 0x27])], False)
   \<and> \<not> snd (check_file (\<lambda>_. NonZeroExit) ''outputs/a_normalized.mp4'')"
  using check_file_passes_iff
          [of "\<lambda>_. Response (Some [[''pix_fmt'' \<mapsto> JStr ''yuv420p'',
                            ''color_space'' \<mapsto> JStr ''bt709'',
                            ''color_primaries'' \<mapsto> JStr ''bt709'',
                            ''color_transfer'' \<mapsto> JStr ''bt709'']])"
              "''outputs/a_normalized.mp4''"]
        check_file_passes_iff
          [of "\<lambda>_. Response (Some [[''pix_fmt'' \<mapsto> JStr ''yuv420p10le'',
                            ''color_space'' \<mapsto> JStr ''bt709'',
                            ''color_primaries'' \<mapsto> JStr ''bt709'',
                            ''color_transfer'' \<mapsto> JStr ''bt709'']])"
              "''outputs/a_normalized.mp4''"]
        check_file_passes_iff [of "\<lambda>_. NonZeroExit" "''outputs/a_normalized.mp4''"]
  by (simp add: prod_eq_iff dict_get_def basename_def mismatch_line_def)

text \<open>
  C8. The verifier exits with code 0 exactly when at least one file was found and every
  found file passed, and with code 1 otherwise. With no file it prints only the message
  that no output files were found; with files it checks every one of them, then prints
  that all match or that some failed, and never prints the no-files message.
\<close>

theorem verify_main_exit_code:
  "snd (verify_main probe files) =
     (if files \<noteq> [] \<and> (\<forall>f \<in> set files. snd (check_file probe f)) then 0 else 1)
   \<and> fst (verify_main probe files) =
     (if files = [] then [NoOutputFiles]
      else concat (map (\<lambda>f. fst (check_file probe f)) files)
           @ [if \<forall>f \<in> set files. snd (check_file probe f)
              then AllFilesMatch else SomeFilesFailed])
   \<and> (files \<noteq> [] \<longrightarrow> NoOutputFiles \<notin> set (fst (verify_main probe files)))"
  by (auto simp: verify_main_def verify_loop_eq check_file_no_summary)

theorem verify_main_exit_code_witness:
  "verify_main
     (\<lambda>f. if f = ''outputs/a_normalized.mp4''
           then Response (Some [[''pix_fmt'' \<mapsto> JStr ''yuv420p'',
                                 ''color_space'' \<mapsto> JStr ''bt709'',
                                 ''color_primaries'' \<mapsto> JStr ''bt709'',
                                 ''color_transfer'' \<mapsto> JStr ''bt709'']])
           else NonZeroExit)
     [''outputs/a_normalized.mp4'']
     = ([Verifying ''a_normalized.mp4'', Pass, AllFilesMatch], 0)
   \<and> verify_main
     (\<lambda>f. if f = ''outputs/a_normalized.mp4''
           then Response (Some [[''pix_fmt'' \<mapsto> JStr ''yuv420p'',
                                 ''color_space'' \<mapsto> JStr ''bt709'',
                                 ''color_primaries'' \<mapsto> JStr ''bt709'',
                                 ''color_transfer'' \<mapsto> JStr ''bt709'']])
           else NonZeroExit)
     [''outputs/a_normalized.mp4'', ''outputs/b_normalized.mp4'']
     = ([Verifying ''a_normalized.mp4'', Pass,
         Verifying ''b_normalized.mp4'', CouldNotReadMetadata CalledProcessError,
         SomeFilesFailed], 1)
   \<and> verify_main (\<lambda>f. NonZeroExit) [] = ([NoOutputFiles], 1)"
  using verify_main_exit_code
          [of "\<lambda>f. if f = ''outputs/a_normalized.mp4''
                    then Response (Some [[''pix_fmt'' \<mapsto> JStr ''yuv420p'',
                                          ''color_space'' \<mapsto> JStr ''bt709'',
                                          ''color_primaries'' \<mapsto> JStr ''bt709'',
                                          ''color_transfer'' \<mapsto> JStr ''bt709'']])
                    else NonZeroExit"
              "[''outputs/a_normalized.mp4'']"]
        verify_main_exit_code
          [of "\<lambda>f. if f = ''outputs/a_normalized.mp4''
                    then Response (Some [[''pix_fmt'' \<mapsto> JStr ''yuv420p'',
                                          ''color_space'' \<mapsto> JStr ''bt709'',
                                          ''color_primaries'' \<mapsto> JStr ''bt709'',
                                          ''color_transfer'' \<mapsto> JStr ''bt709'']])
                    else NonZeroExit"
              "[''outputs/a_normalized.mp4'', ''outputs/b_normalized.mp4'']"]
        verify_main_exit_code [of "\<lambda>f. NonZeroExit" "[]"]
  by (simp add: prod_eq_iff check_file_def get_metadata_def expected_def dict_get_def
        basename_def)

text \<open>
  C10. When the stream object of a file lacks one of the four checked fields, the file
  fails, and the output holds exactly one mismatch line for that field, with \<open>unknown\<close>
  as the actual value.
\<close>

theorem check_file_missing_field:
  assumes "probe file_path = Response (Some (data # others))"
    and "(key, expected_value) \<in> set expected"
    and "data key = None"
  shows "\<not> snd (check_file probe file_path)
       \<and> count_list (fst (check_file probe file_path))
           (MismatchLine (key @ '': expected '' @ [CHR 0x27] @ expected_value @ [CHR 0x27]
                              @ '', got 'unknown'' @ [CHR 0x27])) = 1"
proof -
  have dg: "dict_get data key (JStr ''unknown'') = JStr ''unknown''"
    using assms(3) by (simp add: dict_get_def)
  note cf = check_file_parsed [of probe file_path data others, OF assms(1)]
  from assms(2) consider
      "key = ''pix_fmt''" "expected_value = ''yuv420p''"
    | "key = ''color_space''" "expected_value = ''bt709''"
    | "key = ''color_primaries''" "expected_value = ''bt709''"
    | "key = ''color_transfer''" "expected_value = ''bt709''"
    by (auto simp: expected_def)
  then show ?thesis
  proof cases
    case 1
    then show ?thesis
      using dg unfolding cf check_loop_expected by (simp add: mismatch_line_def)
  next
    case 2
    then show ?thesis
      using dg unfolding cf check_loop_expected by (simp add: mismatch_line_def)
  next
    case 3
    then show ?thesis
      using dg unfolding cf check_loop_expected by (simp add: mismatch_line_def)
  next
    case 4
    then show ?thesis
      using dg unfolding cf check_loop_expected by (simp add: mismatch_line_def)
  qed
qed

theorem check_file_missing_field_witness:
  "(''color_space'', ''bt709'') \<in> set expected
   \<and> [''pix_fmt'' \<mapsto> JStr ''yuv420p''] ''color_space'' = None
   \<and> \<not> snd (check_file (\<lambda>f. Response (Some [[''pix_fmt'' \<mapsto> JStr ''yuv420p'']]))
              ''outputs/a_normalized.mp4'')
   \<and> count_list
       (fst (check_file (\<lambda>f. Response (Some [[''pix_fmt'' \<mapsto> JStr ''yuv420p'']]))
               ''outputs/a_normalized.mp4''))
       (MismatchLine (''color_space: expected 'bt709', got 'unknown'' @ [CHR 0x27])) = 1"
  using check_file_missing_field
          [of "\<lambda>f. Response (Some [[''pix_fmt'' \<mapsto> JStr ''yuv420p'']])"
              "''outputs/a_normalized.mp4''" "[''pix_fmt'' \<mapsto> JStr ''yuv420p'']" "[]"
              "''color_space''" "''bt709''"]
  by (simp add: expected_def)

section \<open>Properties of the batch run\<close>

text \<open>
  C1 does not hold of the code. A batch of two files in which the probe of the first
  fails: the run prints the probe error and ends there with exit code 1; the second file
  is never processed.
\<close>

theorem batch_probe_failure_ends_run:
  "main (fixed_world [''a.mp4'', ''b.mp4'']
           (\<lambda>p. if p = ''videos/a.mp4'' then NonZeroExit
                 else Response (Some [[''pix_fmt'' \<mapsto> JStr ''yuv420p'']]))
           (\<lambda>cmd. EncodeOk))
        () ''videos'' ''outputs''
   = ([PrintBatchMode ''videos'',
       PrintProcessing ''videos/a.mp4'' ''outputs/a_normalized.mp4'',
       PrintProbeError ''videos/a.mp4'' CalledProcessError], 1, ())"
  by code_simp




end
